theory Spec2Isabelle
  imports Main
begin

section \<open>Data model of background.ts\<close>

text \<open>
  \<^verbatim>\<open>type TabsByWindow = Record<number, number[]>\<close>: window id to the list of recently
  activated tab ids, most recent first. Window and tab ids are JavaScript numbers that
  Chrome hands out as integers.
\<close>

type_synonym TabsByWindow = "int \<rightharpoonup> int list"

text \<open>
  The part of \<^verbatim>\<open>chrome.tabs.Tab\<close> the code reads: the optional \<^verbatim>\<open>id\<close> and the
  position \<^verbatim>\<open>index\<close> of the tab in its window.
\<close>

record tab =
  tab_id :: "int option"
  index :: int

text \<open>
  The answers of the Chrome API during one handler run. A promise that rejects is
  \<open>None\<close> (or \<open>False\<close> for \<^verbatim>\<open>chrome.tabs.update\<close>, whose value the code never reads).
  \<^item> \<open>windows_getCurrent\<close>: the \<^verbatim>\<open>id\<close> field of \<^verbatim>\<open>chrome.windows.getCurrent()\<close>;
  \<^item> \<open>tabs_get tabId\<close>: \<^verbatim>\<open>chrome.tabs.get(tabId)\<close>;
  \<^item> \<open>tabs_query windowId\<close>: \<^verbatim>\<open>chrome.tabs.query({ windowId })\<close>;
  \<^item> \<open>tabs_update tabId\<close>: whether \<^verbatim>\<open>chrome.tabs.update(tabId, { active: true })\<close> resolves.
\<close>

record chrome =
  windows_getCurrent :: "int option"
  tabs_get :: "int \<Rightarrow> tab option"
  tabs_query :: "int \<Rightarrow> tab list option"
  tabs_update :: "int \<Rightarrow> bool"

text \<open>
  The state the handlers read and write:
  \<^item> \<open>storage\<close>: the value of \<^verbatim>\<open>chrome.storage.session\<close> under \<^verbatim>\<open>STORAGE_KEY\<close>
    (\<open>None\<close> while nothing has been stored);
  \<^item> \<open>activeTabIndex\<close>: the module variable \<^verbatim>\<open>let activeTabIndex: number | null\<close>;
  \<^item> \<open>update_calls\<close>: the tab ids \<^verbatim>\<open>chrome.tabs.update(id, { active: true })\<close> has been
    called with, oldest first. It makes the activation requests of a handler observable.
  Each handler is modelled as running to completion without another handler interleaving
  at its \<^verbatim>\<open>await\<close> points, and the storage calls themselves are taken not to reject.
\<close>

record state =
  storage :: "TabsByWindow option"
  activeTabIndex :: "int option"
  update_calls :: "int list"

section \<open>Storage helpers\<close>

text \<open>\<^verbatim>\<open>return result[STORAGE_KEY] || {}\<close>\<close>

definition getTabsByWindow :: "state \<Rightarrow> TabsByWindow" where
  "getTabsByWindow s = (case storage s of None \<Rightarrow> Map.empty | Some tabsByWindow \<Rightarrow> tabsByWindow)"

definition setTabsByWindow :: "TabsByWindow \<Rightarrow> state \<Rightarrow> state" where
  "setTabsByWindow tabsByWindow s = s\<lparr>storage := Some tabsByWindow\<rparr>"

text \<open>\<^verbatim>\<open>return tabsByWindow[windowId] || []\<close> (an array, even an empty one, is truthy)\<close>

definition getRecentTabsForWindow :: "int \<Rightarrow> state \<Rightarrow> int list" where
  "getRecentTabsForWindow windowId s =
     (case getTabsByWindow s windowId of None \<Rightarrow> [] | Some tabs \<Rightarrow> tabs)"

definition setRecentTabsForWindow :: "int \<Rightarrow> int list \<Rightarrow> state \<Rightarrow> state" where
  "setRecentTabsForWindow windowId tabs s =
     setTabsByWindow ((getTabsByWindow s)(windowId \<mapsto> tabs)) s"

section \<open>Tab activation: the \<^verbatim>\<open>chrome.tabs.onActivated\<close> listener\<close>

definition onActivated :: "chrome \<Rightarrow> int \<Rightarrow> int \<Rightarrow> state \<Rightarrow> state" where
  "onActivated env tabId windowId s =
     (let s1 = s\<lparr>activeTabIndex :=
                  (case tabs_get env tabId of
                     Some t \<Rightarrow> Some (index t)
                   | None \<Rightarrow> None)\<rparr>;
          recentTabs = getRecentTabsForWindow windowId s1;
          recentTabs = filter (\<lambda>i. i \<noteq> tabId) recentTabs;
          recentTabs = tabId # recentTabs;
          recentTabs = (if length recentTabs > 4 then take 4 recentTabs else recentTabs)
      in setRecentTabsForWindow windowId recentTabs s1)"

text \<open>
  A finite sequence of activation events, handled one after the other. Every event
  comes with the Chrome answers of its own moment, its tab id and its window id.
\<close>

fun onActivated_all :: "(chrome \<times> int \<times> int) list \<Rightarrow> state \<Rightarrow> state" where
  "onActivated_all [] s = s"
| "onActivated_all ((env, tabId, windowId) # events) s =
     onActivated_all events (onActivated env tabId windowId s)"

section \<open>Tab removal: the \<^verbatim>\<open>chrome.tabs.onRemoved\<close> listener\<close>

text \<open>
  \<^verbatim>\<open>recentTabs[0] === tabId\<close> is false on an empty array (\<^verbatim>\<open>undefined\<close> is no number).
  \<^verbatim>\<open>if (targetTab?.id)\<close> is false for a missing tab, a missing id and the id 0.
  A rejected \<^verbatim>\<open>chrome.tabs.query\<close> or \<^verbatim>\<open>chrome.tabs.update\<close> is caught and logged.
\<close>

definition onRemoved :: "chrome \<Rightarrow> int \<Rightarrow> int \<Rightarrow> bool \<Rightarrow> state \<Rightarrow> state" where
  "onRemoved env tabId windowId isWindowClosing s =
     (if isWindowClosing then s
      else
        let recentTabs = getRecentTabsForWindow windowId s;
            wasActiveTab = (case recentTabs of [] \<Rightarrow> False | t # _ \<Rightarrow> t = tabId);
            recentTabs = filter (\<lambda>i. i \<noteq> tabId) recentTabs;
            s1 = setRecentTabsForWindow windowId recentTabs s
        in case activeTabIndex s1 of
             None \<Rightarrow> s1
           | Some hint \<Rightarrow>
               if wasActiveTab then
                 (case tabs_query env windowId of
                    None \<Rightarrow> s1
                  | Some allTabs \<Rightarrow>
                      if length allTabs > 0 then
                        let targetIndex = min hint (int (length allTabs) - 1)
                        in case find (\<lambda>t. index t = targetIndex) allTabs of
                             None \<Rightarrow> s1
                           | Some targetTab \<Rightarrow>
                               (case tab_id targetTab of
                                  None \<Rightarrow> s1
                                | Some i \<Rightarrow>
                                    if i = 0 then s1
                                    else s1\<lparr>update_calls := update_calls s1 @ [i]\<rparr>)
                      else s1)
               else s1)"

section \<open>The keyboard command: \<^verbatim>\<open>switchToPreviousTab\<close>\<close>

text \<open>
  The function returns \<^verbatim>\<open>Promise<void>\<close>; the outcome names the place where it returns:
  \<^item> \<open>NoCurrentWindow\<close>: \<^verbatim>\<open>if (!currentWindow.id)\<close>, after logging "No current window";
  \<^item> \<open>NotEnoughHistory\<close>: \<^verbatim>\<open>if (recentTabs.length < 2)\<close>;
  \<^item> \<open>Switched tabId\<close>: after \<^verbatim>\<open>chrome.tabs.update(tabId, ...)\<close> resolved;
  \<^item> \<open>StaleRemoved tabId\<close>: the \<^verbatim>\<open>catch\<close> block of the first revision;
  \<^item> \<open>AllStale\<close>: the end of the second revision, after the clean-up of all candidates;
  \<^item> \<open>NothingStale\<close>: the end of the second revision with \<^verbatim>\<open>invalidTabIds\<close> empty.
\<close>

datatype outcome =
    NoCurrentWindow
  | NotEnoughHistory
  | Switched int
  | StaleRemoved int
  | AllStale
  | NothingStale

text \<open>
  The \<^verbatim>\<open>for (let i = 1; i < recentTabs.length; i++)\<close> loop of the second revision, from
  index \<open>i\<close> on. The result is \<open>(Some tabId, _, s)\<close> when the loop body returned after
  activating \<open>tabId\<close>, and \<open>(None, invalidTabIds, s)\<close> when the loop ran to its end.
\<close>

function scan ::
  "chrome \<Rightarrow> int \<Rightarrow> int list \<Rightarrow> nat \<Rightarrow> int list \<Rightarrow> state \<Rightarrow> int option \<times> int list \<times> state"
where
  "scan env windowId recentTabs i invalidTabIds s =
     (if i < length recentTabs then
        let tabId = recentTabs ! i;
            s1 = s\<lparr>update_calls := update_calls s @ [tabId]\<rparr>
        in if tabs_update env tabId then
             (Some tabId, invalidTabIds,
              if length invalidTabIds > 0 then
                setRecentTabsForWindow windowId
                  (filter (\<lambda>i. i \<notin> set invalidTabIds) recentTabs) s1
              else s1)
           else scan env windowId recentTabs (i + 1) (invalidTabIds @ [tabId]) s1
      else (None, invalidTabIds, s))"
  by pat_completeness auto
termination
  by (relation "measure (\<lambda>(env, windowId, recentTabs, i, invalidTabIds, s). length recentTabs - i)")
     auto

declare scan.simps [simp del]

text \<open>The second revision (the later one in the file).\<close>

definition switchToPreviousTab :: "chrome \<Rightarrow> state \<Rightarrow> outcome \<times> state" where
  "switchToPreviousTab env s =
     (case windows_getCurrent env of
        None \<Rightarrow> (NoCurrentWindow, s)
      | Some windowId \<Rightarrow>
          if windowId = 0 then (NoCurrentWindow, s)
          else
            let recentTabs = getRecentTabsForWindow windowId s
            in if length recentTabs < 2 then (NotEnoughHistory, s)
               else
                 (case scan env windowId recentTabs 1 [] s of
                    (Some tabId, _, s1) \<Rightarrow> (Switched tabId, s1)
                  | (None, invalidTabIds, s1) \<Rightarrow>
                      if length invalidTabIds > 0 then
                        (AllStale,
                         setRecentTabsForWindow windowId
                           (filter (\<lambda>i. i \<notin> set invalidTabIds) recentTabs) s1)
                      else (NothingStale, s1)))"

text \<open>The first revision: one attempt, at \<^verbatim>\<open>recentTabs[1]\<close>.\<close>

definition switchToPreviousTab_rev1 :: "chrome \<Rightarrow> state \<Rightarrow> outcome \<times> state" where
  "switchToPreviousTab_rev1 env s =
     (case windows_getCurrent env of
        None \<Rightarrow> (NoCurrentWindow, s)
      | Some windowId \<Rightarrow>
          if windowId = 0 then (NoCurrentWindow, s)
          else
            let recentTabs = getRecentTabsForWindow windowId s
            in if length recentTabs < 2 then (NotEnoughHistory, s)
               else
                 let previousTabId = recentTabs ! 1;
                     s1 = s\<lparr>update_calls := update_calls s @ [previousTabId]\<rparr>
                 in if tabs_update env previousTabId then (Switched previousTabId, s1)
                    else
                      let updatedTabs = getRecentTabsForWindow windowId s1;
                          updatedTabs = filter (\<lambda>i. i \<noteq> previousTabId) updatedTabs
                      in (StaleRemoved previousTabId,
                          setRecentTabsForWindow windowId updatedTabs s1))"

section \<open>Basic facts about the storage helpers\<close>

lemma getRecent_setRecent_same [simp]:
  "getRecentTabsForWindow w (setRecentTabsForWindow w tabs s) = tabs"
  by (simp add: getRecentTabsForWindow_def setRecentTabsForWindow_def
      getTabsByWindow_def setTabsByWindow_def)

lemma getRecent_setRecent_other [simp]:
  "w' \<noteq> w \<Longrightarrow>
   getRecentTabsForWindow w' (setRecentTabsForWindow w tabs s) = getRecentTabsForWindow w' s"
  by (simp add: getRecentTabsForWindow_def setRecentTabsForWindow_def
      getTabsByWindow_def setTabsByWindow_def)

lemma getRecent_activeTabIndex_update [simp]:
  "getRecentTabsForWindow w (s\<lparr>activeTabIndex := a\<rparr>) = getRecentTabsForWindow w s"
  by (simp add: getRecentTabsForWindow_def getTabsByWindow_def)

lemma getRecent_update_calls_update [simp]:
  "getRecentTabsForWindow w (s\<lparr>update_calls := c\<rparr>) = getRecentTabsForWindow w s"
  by (simp add: getRecentTabsForWindow_def getTabsByWindow_def)

lemma getTabs_activeTabIndex_update [simp]:
  "getTabsByWindow (s\<lparr>activeTabIndex := a\<rparr>) = getTabsByWindow s"
  by (simp add: getTabsByWindow_def)

lemma getTabs_update_calls_update [simp]:
  "getTabsByWindow (s\<lparr>update_calls := c\<rparr>) = getTabsByWindow s"
  by (simp add: getTabsByWindow_def)

lemma storage_setRecent [simp]:
  "storage (setRecentTabsForWindow w tabs s) = Some ((getTabsByWindow s)(w \<mapsto> tabs))"
  by (simp add: setRecentTabsForWindow_def setTabsByWindow_def)

lemma update_calls_setRecent [simp]:
  "update_calls (setRecentTabsForWindow w tabs s) = update_calls s"
  by (simp add: setRecentTabsForWindow_def setTabsByWindow_def)

lemma activeTabIndex_setRecent [simp]:
  "activeTabIndex (setRecentTabsForWindow w tabs s) = activeTabIndex s"
  by (simp add: setRecentTabsForWindow_def setTabsByWindow_def)

lemma getTabs_setRecent [simp]:
  "getTabsByWindow (setRecentTabsForWindow w tabs s) = (getTabsByWindow s)(w \<mapsto> tabs)"
  by (simp add: getTabsByWindow_def)

section \<open>The activation handler\<close>

lemma getRecent_onActivated_same:
  "getRecentTabsForWindow w (onActivated env t w s) =
     t # take 3 (filter (\<lambda>i. i \<noteq> t) (getRecentTabsForWindow w s))"
  by (simp add: onActivated_def Let_def)

lemma getRecent_onActivated_other:
  "w' \<noteq> w \<Longrightarrow>
   getRecentTabsForWindow w' (onActivated env t w s) = getRecentTabsForWindow w' s"
  by (simp add: onActivated_def Let_def)

lemma inv_onActivated:
  "length (getRecentTabsForWindow w s) \<le> 4 \<and> distinct (getRecentTabsForWindow w s) \<Longrightarrow>
   length (getRecentTabsForWindow w (onActivated env t w' s)) \<le> 4 \<and>
   distinct (getRecentTabsForWindow w (onActivated env t w' s))"
  by (cases "w = w'")
     (auto simp: getRecent_onActivated_same getRecent_onActivated_other dest: in_set_takeD)

lemma filter_take_filter:
  "filter P (take n (filter P xs)) = take n (filter P xs)"
  by (rule filter_True) (auto dest: in_set_takeD)

text \<open>
  C1. Bounded, duplicate-free history. Take any window \<open>w\<close> whose history has at most
  4 entries and no tab id twice (the empty history of a window without a key, or of an
  empty storage, is such a history). After any finite sequence of activation events,
  for whatever tabs and windows and whatever Chrome answers, the history of \<open>w\<close> still
  has at most 4 entries and no tab id twice.
\<close>

theorem C1_activation_history_bounded_distinct:
  "length (getRecentTabsForWindow w s) \<le> 4 \<and> distinct (getRecentTabsForWindow w s) \<Longrightarrow>
   length (getRecentTabsForWindow w (onActivated_all events s)) \<le> 4 \<and>
   distinct (getRecentTabsForWindow w (onActivated_all events s))"
proof (induction events arbitrary: s)
  case Nil
  then show ?case by simp
next
  case (Cons e events)
  obtain env t w' where e: "e = (env, t, w')" by (cases e)
  show ?case unfolding e onActivated_all.simps
    by (rule Cons.IH) (rule inv_onActivated [OF Cons.prems])
qed

text \<open>
  Six activations in window 1, starting from an empty storage: tabs 5, 3, 9, 3, 7, 8.
  The history ends as 8, 7, 3, 9: tab 5 has been dropped, tab 3 is there once.
\<close>

theorem C1_activation_history_bounded_distinct_witness:
  "getRecentTabsForWindow 1 \<lparr>storage = None, activeTabIndex = None, update_calls = []\<rparr> = [] \<and>
   getRecentTabsForWindow 1
     (onActivated_all
        [(\<lparr>windows_getCurrent = Some 1, tabs_get = (\<lambda>i. None), tabs_query = (\<lambda>i. None),
            tabs_update = (\<lambda>i. True)\<rparr>, t, 1). t \<leftarrow> [5, 3, 9, 3, 7, 8]]
        \<lparr>storage = None, activeTabIndex = None, update_calls = []\<rparr>) = [8, 7, 3, 9] \<and>
   length (getRecentTabsForWindow 1
     (onActivated_all
        [(\<lparr>windows_getCurrent = Some 1, tabs_get = (\<lambda>i. None), tabs_query = (\<lambda>i. None),
            tabs_update = (\<lambda>i. True)\<rparr>, t, 1). t \<leftarrow> [5, 3, 9, 3, 7, 8]]
        \<lparr>storage = None, activeTabIndex = None, update_calls = []\<rparr>)) \<le> 4 \<and>
   distinct (getRecentTabsForWindow 1
     (onActivated_all
        [(\<lparr>windows_getCurrent = Some 1, tabs_get = (\<lambda>i. None), tabs_query = (\<lambda>i. None),
            tabs_update = (\<lambda>i. True)\<rparr>, t, 1). t \<leftarrow> [5, 3, 9, 3, 7, 8]]
        \<lparr>storage = None, activeTabIndex = None, update_calls = []\<rparr>))"
proof -
  let ?s = "\<lparr>storage = None, activeTabIndex = None, update_calls = []\<rparr>"
  let ?env = "\<lparr>windows_getCurrent = Some 1, tabs_get = (\<lambda>i. None), tabs_query = (\<lambda>i. None),
            tabs_update = (\<lambda>i. True)\<rparr>"
  have start: "getRecentTabsForWindow 1 ?s = []"
    by (simp add: getRecentTabsForWindow_def getTabsByWindow_def)
  have run: "getRecentTabsForWindow 1
      (onActivated_all [(?env, t, 1). t \<leftarrow> [5, 3, 9, 3, 7, 8]] ?s) = [8, 7, 3, 9]"
    by (simp add: getRecent_onActivated_same start)
  show ?thesis
    using C1_activation_history_bounded_distinct
      [of 1 ?s "[(?env, t, 1). t \<leftarrow> [5, 3, 9, 3, 7, 8]]"] start run
    by simp
qed

text \<open>
  C7. Right after the activation handler has run for tab \<open>t\<close> in window \<open>w\<close>, the
  history of \<open>w\<close> starts with \<open>t\<close>. This holds from every state, also from one whose
  history has duplicates or more than 4 entries.
\<close>

theorem C7_activated_tab_is_first:
  "\<exists>rest. getRecentTabsForWindow w (onActivated env t w s) = t # rest"
  by (simp add: getRecent_onActivated_same)

theorem C7_activated_tab_is_first_witness:
  "\<exists>rest. getRecentTabsForWindow 1
     (onActivated
        \<lparr>windows_getCurrent = Some 1, tabs_get = (\<lambda>i. None), tabs_query = (\<lambda>i. None),
         tabs_update = (\<lambda>i. True)\<rparr> 3 1
        \<lparr>storage = Some (Map.empty(1 \<mapsto> [5, 3, 9])), activeTabIndex = None,
         update_calls = []\<rparr>) = 3 # rest"
  by (rule C7_activated_tab_is_first)

text \<open>
  C8. The activation handler is idempotent on the stored table: running it a second
  time for the same tab and window, with no other handler in between, leaves the
  storage exactly as the first run left it. The Chrome answers of the two runs may
  differ (they only reach \<open>activeTabIndex\<close>).
\<close>

theorem C8_activation_idempotent_on_storage:
  "storage (onActivated env2 t w (onActivated env1 t w s)) = storage (onActivated env1 t w s)"
  by (simp add: onActivated_def Let_def filter_take_filter)

theorem C8_activation_idempotent_on_storage_witness:
  "storage
     (onActivated
        \<lparr>windows_getCurrent = Some 1, tabs_get = (\<lambda>i. Some \<lparr>tab_id = Some i, index = 2\<rparr>),
         tabs_query = (\<lambda>i. None), tabs_update = (\<lambda>i. True)\<rparr> 9 1
        (onActivated
           \<lparr>windows_getCurrent = Some 1, tabs_get = (\<lambda>i. None), tabs_query = (\<lambda>i. None),
            tabs_update = (\<lambda>i. True)\<rparr> 9 1
           \<lparr>storage = Some (Map.empty(1 \<mapsto> [5, 3, 9, 4])), activeTabIndex = None,
            update_calls = []\<rparr>)) =
   storage
     (onActivated
        \<lparr>windows_getCurrent = Some 1, tabs_get = (\<lambda>i. None), tabs_query = (\<lambda>i. None),
         tabs_update = (\<lambda>i. True)\<rparr> 9 1
        \<lparr>storage = Some (Map.empty(1 \<mapsto> [5, 3, 9, 4])), activeTabIndex = None,
         update_calls = []\<rparr>)"
  by (rule C8_activation_idempotent_on_storage)

section \<open>The removal handler\<close>

lemma getRecent_no_key:
  "getTabsByWindow s w = None \<Longrightarrow> getRecentTabsForWindow w s = []"
  by (simp add: getRecentTabsForWindow_def)

lemma storage_onRemoved:
  "storage (onRemoved env t w False s) =
     Some ((getTabsByWindow s)(w \<mapsto> filter (\<lambda>i. i \<noteq> t) (getRecentTabsForWindow w s)))"
  by (simp add: onRemoved_def Let_def split: option.splits list.splits)

lemma find_distinct_index:
  "distinct (map index allTabs) \<Longrightarrow> x \<in> set allTabs \<Longrightarrow>
   find (\<lambda>y. index y = index x) allTabs = Some x"
  by (induction allTabs) (auto simp: image_iff)

lemma find_Some_member:
  "find P xs = Some x \<Longrightarrow> P x \<and> x \<in> set xs"
  by (induction xs) (auto split: if_splits)

lemma onRemoved_activates:
  assumes "getRecentTabsForWindow w s = t # rest" "activeTabIndex s = Some hint"
    "tabs_query env w = Some allTabs" "distinct (map index allTabs)" "x \<in> set allTabs"
    "index x = min hint (int (length allTabs) - 1)" "tab_id x = Some i" "i \<noteq> 0"
  shows "update_calls (onRemoved env t w False s) = update_calls s @ [i]"
proof -
  have "find (\<lambda>y. index y = min hint (int (length allTabs) - 1)) allTabs = Some x"
    using find_distinct_index [OF assms(4) assms(5)] assms(6) by simp
  moreover have "allTabs \<noteq> []" using assms(5) by auto
  ultimately show ?thesis using assms(1,2,3,7,8)
    by (simp add: onRemoved_def Let_def)
qed

lemma onRemoved_activates_only:
  assumes changed: "update_calls (onRemoved env t w False s) \<noteq> update_calls s"
  shows "\<exists>rest hint allTabs x i.
           getRecentTabsForWindow w s = t # rest \<and> activeTabIndex s = Some hint \<and>
           tabs_query env w = Some allTabs \<and> x \<in> set allTabs \<and>
           index x = min hint (int (length allTabs) - 1) \<and> tab_id x = Some i \<and>
           update_calls (onRemoved env t w False s) = update_calls s @ [i]"
proof -
  obtain hint where hint: "activeTabIndex s = Some hint"
    using changed by (cases "activeTabIndex s") (simp_all add: onRemoved_def Let_def)
  obtain rest where hist: "getRecentTabsForWindow w s = t # rest"
    using changed hint
    by (cases "getRecentTabsForWindow w s") (auto simp: onRemoved_def Let_def split: if_splits)
  obtain allTabs where query: "tabs_query env w = Some allTabs"
    using changed hint hist by (cases "tabs_query env w") (simp_all add: onRemoved_def Let_def)
  have nonempty: "allTabs \<noteq> []"
    using changed hint hist query by (auto simp: onRemoved_def Let_def)
  obtain x where found:
    "find (\<lambda>y. index y = min hint (int (length allTabs) - 1)) allTabs = Some x"
    using changed hint hist query nonempty
    by (cases "find (\<lambda>y. index y = min hint (int (length allTabs) - 1)) allTabs")
       (simp_all add: onRemoved_def Let_def)
  obtain i where i: "tab_id x = Some i"
    using changed hint hist query nonempty found
    by (cases "tab_id x") (simp_all add: onRemoved_def Let_def)
  have "i \<noteq> 0"
    using changed hint hist query nonempty found i by (auto simp: onRemoved_def Let_def)
  then have "update_calls (onRemoved env t w False s) = update_calls s @ [i]"
    using hint hist query nonempty found i by (simp add: onRemoved_def Let_def)
  moreover have "x \<in> set allTabs" "index x = min hint (int (length allTabs) - 1)"
    using find_Some_member [OF found] by simp_all
  ultimately show ?thesis using hint hist query i by blast
qed

text \<open>
  C6. With \<^verbatim>\<open>isWindowClosing\<close> true the removal handler returns at once: the whole
  state after the call is the state before it, so the storage is not written and
  \<^verbatim>\<open>chrome.tabs.update\<close> is not called.
\<close>

theorem C6_removal_window_closing_noop:
  "onRemoved env t w True s = s"
  by (simp add: onRemoved_def)

theorem C6_removal_window_closing_noop_witness:
  "onRemoved
     \<lparr>windows_getCurrent = Some 1, tabs_get = (\<lambda>i. None),
      tabs_query = (\<lambda>i. Some [\<lparr>tab_id = Some 8, index = 0\<rparr>]), tabs_update = (\<lambda>i. True)\<rparr>
     7 1 True
     \<lparr>storage = Some (Map.empty(1 \<mapsto> [7, 8])), activeTabIndex = Some 0, update_calls = []\<rparr> =
   \<lparr>storage = Some (Map.empty(1 \<mapsto> [7, 8])), activeTabIndex = Some 0, update_calls = []\<rparr>"
  by (rule C6_removal_window_closing_noop)

text \<open>
  C9. When the stored table has no key for window \<open>w\<close> (also when nothing is stored
  at all), the removal handler with \<^verbatim>\<open>isWindowClosing\<close> false writes the table back
  with the key \<open>w\<close> mapped to the empty list, and calls \<^verbatim>\<open>chrome.tabs.update\<close> for no
  tab: \<^verbatim>\<open>recentTabs[0]\<close> is \<^verbatim>\<open>undefined\<close>, so the removed tab is not taken for the
  active one.
\<close>

theorem C9_removal_unknown_window_writes_empty_entry:
  "getTabsByWindow s w = None \<Longrightarrow>
   storage (onRemoved env t w False s) = Some ((getTabsByWindow s)(w \<mapsto> [])) \<and>
   getTabsByWindow (onRemoved env t w False s) w = Some [] \<and>
   update_calls (onRemoved env t w False s) = update_calls s"
  by (simp add: onRemoved_def Let_def getRecent_no_key split: option.splits)

theorem C9_removal_unknown_window_writes_empty_entry_witness:
  "getTabsByWindow
     \<lparr>storage = Some (Map.empty(1 \<mapsto> [7, 8])), activeTabIndex = Some 0, update_calls = []\<rparr> 2 = None \<and>
   getTabsByWindow
     (onRemoved
        \<lparr>windows_getCurrent = Some 2, tabs_get = (\<lambda>i. None),
         tabs_query = (\<lambda>i. Some [\<lparr>tab_id = Some 4, index = 0\<rparr>]), tabs_update = (\<lambda>i. True)\<rparr>
        6 2 False
        \<lparr>storage = Some (Map.empty(1 \<mapsto> [7, 8])), activeTabIndex = Some 0, update_calls = []\<rparr>)
     2 = Some [] \<and>
   update_calls
     (onRemoved
        \<lparr>windows_getCurrent = Some 2, tabs_get = (\<lambda>i. None),
         tabs_query = (\<lambda>i. Some [\<lparr>tab_id = Some 4, index = 0\<rparr>]), tabs_update = (\<lambda>i. True)\<rparr>
        6 2 False
        \<lparr>storage = Some (Map.empty(1 \<mapsto> [7, 8])), activeTabIndex = Some 0, update_calls = []\<rparr>)
     = []"
proof -
  let ?s = "\<lparr>storage = Some (Map.empty(1 \<mapsto> [7, 8])), activeTabIndex = Some 0,
             update_calls = []\<rparr>"
  have no_key: "getTabsByWindow ?s 2 = None"
    by (simp add: getTabsByWindow_def)
  show ?thesis
    using C9_removal_unknown_window_writes_empty_entry [OF no_key] no_key by simp
qed

text \<open>
  C4. The removal handler with \<^verbatim>\<open>isWindowClosing\<close> false, for tab \<open>t\<close> of window \<open>w\<close>:
  \<^item> it writes the table back with \<open>t\<close> filtered out of the history of \<open>w\<close>;
  \<^item> when \<open>t\<close> was \<^verbatim>\<open>recentTabs[0]\<close> in the history as read before the filtering, the
    hint \<open>activeTabIndex\<close> is set, and the tabs that \<^verbatim>\<open>chrome.tabs.query\<close> returns for
    \<open>w\<close> (with pairwise different positions) hold a tab \<open>x\<close> at position
    \<open>min hint (number of tabs - 1)\<close> whose id is present and not 0, then
    \<^verbatim>\<open>chrome.tabs.update\<close> is called once, with the id of \<open>x\<close>, whatever the rest of
    the history is;
  \<^item> \<^verbatim>\<open>chrome.tabs.update\<close> is called in no other situation: a call means that \<open>t\<close>
    headed the history before the filtering, the hint was set, and the tab activated
    is one of the queried tabs at that position.
\<close>

theorem C4_removal_filters_and_activates_by_position:
  "storage (onRemoved env t w False s) =
     Some ((getTabsByWindow s)(w \<mapsto> filter (\<lambda>i. i \<noteq> t) (getRecentTabsForWindow w s))) \<and>
   (getRecentTabsForWindow w s = t # rest \<and> activeTabIndex s = Some hint \<and>
    tabs_query env w = Some allTabs \<and> distinct (map index allTabs) \<and> x \<in> set allTabs \<and>
    index x = min hint (int (length allTabs) - 1) \<and> tab_id x = Some i \<and> i \<noteq> 0
      \<longrightarrow> update_calls (onRemoved env t w False s) = update_calls s @ [i]) \<and>
   (update_calls (onRemoved env t w False s) \<noteq> update_calls s
      \<longrightarrow> (\<exists>rest' hint' allTabs' x' i'.
            getRecentTabsForWindow w s = t # rest' \<and> activeTabIndex s = Some hint' \<and>
            tabs_query env w = Some allTabs' \<and> x' \<in> set allTabs' \<and>
            index x' = min hint' (int (length allTabs') - 1) \<and> tab_id x' = Some i' \<and>
            update_calls (onRemoved env t w False s) = update_calls s @ [i']))"
proof (intro conjI impI)
  show "storage (onRemoved env t w False s) =
     Some ((getTabsByWindow s)(w \<mapsto> filter (\<lambda>i. i \<noteq> t) (getRecentTabsForWindow w s)))"
    by (rule storage_onRemoved)
next
  assume "getRecentTabsForWindow w s = t # rest \<and> activeTabIndex s = Some hint \<and>
    tabs_query env w = Some allTabs \<and> distinct (map index allTabs) \<and> x \<in> set allTabs \<and>
    index x = min hint (int (length allTabs) - 1) \<and> tab_id x = Some i \<and> i \<noteq> 0"
  then show "update_calls (onRemoved env t w False s) = update_calls s @ [i]"
    by (intro onRemoved_activates [of w s t rest hint env allTabs x i]) simp_all
next
  assume "update_calls (onRemoved env t w False s) \<noteq> update_calls s"
  then show "\<exists>rest' hint' allTabs' x' i'.
            getRecentTabsForWindow w s = t # rest' \<and> activeTabIndex s = Some hint' \<and>
            tabs_query env w = Some allTabs' \<and> x' \<in> set allTabs' \<and>
            index x' = min hint' (int (length allTabs') - 1) \<and> tab_id x' = Some i' \<and>
            update_calls (onRemoved env t w False s) = update_calls s @ [i']"
    by (rule onRemoved_activates_only)
qed

text \<open>
  Window 1 has the history 7, 8, 9 and the hint 1; tab 7 is closed, and the window
  then holds tab 9 at position 0, tab 4 at position 1 and tab 8 at position 2. The
  handler leaves the history 8, 9 and asks for tab 4, the tab now at position 1, not
  for tab 8, the second entry of the history.
\<close>

theorem C4_removal_filters_and_activates_by_position_witness:
  "getRecentTabsForWindow 1
     (onRemoved
        \<lparr>windows_getCurrent = Some 1, tabs_get = (\<lambda>i. None),
         tabs_query = (\<lambda>i. Some [\<lparr>tab_id = Some 9, index = 0\<rparr>, \<lparr>tab_id = Some 4, index = 1\<rparr>,
                                  \<lparr>tab_id = Some 8, index = 2\<rparr>]),
         tabs_update = (\<lambda>i. True)\<rparr>
        7 1 False
        \<lparr>storage = Some (Map.empty(1 \<mapsto> [7, 8, 9])), activeTabIndex = Some 1,
         update_calls = []\<rparr>) = [8, 9] \<and>
   update_calls
     (onRemoved
        \<lparr>windows_getCurrent = Some 1, tabs_get = (\<lambda>i. None),
         tabs_query = (\<lambda>i. Some [\<lparr>tab_id = Some 9, index = 0\<rparr>, \<lparr>tab_id = Some 4, index = 1\<rparr>,
                                  \<lparr>tab_id = Some 8, index = 2\<rparr>]),
         tabs_update = (\<lambda>i. True)\<rparr>
        7 1 False
        \<lparr>storage = Some (Map.empty(1 \<mapsto> [7, 8, 9])), activeTabIndex = Some 1,
         update_calls = []\<rparr>) = [4]"
proof -
  let ?s = "\<lparr>storage = Some (Map.empty(1 \<mapsto> [7, 8, 9])), activeTabIndex = Some 1,
             update_calls = []\<rparr>"
  let ?tabs = "[\<lparr>tab_id = Some 9, index = 0\<rparr>, \<lparr>tab_id = Some 4, index = 1\<rparr>,
                \<lparr>tab_id = Some 8, index = 2\<rparr>]"
  let ?env = "\<lparr>windows_getCurrent = Some 1, tabs_get = (\<lambda>i. None),
               tabs_query = (\<lambda>i. Some ?tabs), tabs_update = (\<lambda>i. True)\<rparr>"
  have hist: "getRecentTabsForWindow 1 ?s = [7, 8, 9]"
    by (simp add: getRecentTabsForWindow_def getTabsByWindow_def)
  show ?thesis
    using C4_removal_filters_and_activates_by_position
      [of ?env 7 1 ?s "[8, 9]" 1 ?tabs "\<lparr>tab_id = Some 4, index = 1\<rparr>" 4] hist
    by (simp add: getRecentTabsForWindow_def getTabsByWindow_def)
qed

section \<open>The switch command\<close>

lemma scan_first_ok:
  "i < length xs \<Longrightarrow> tabs_update env (xs ! i) \<Longrightarrow>
   scan env w xs i invalid s =
     (Some (xs ! i), invalid,
      if length invalid > 0 then
        setRecentTabsForWindow w (filter (\<lambda>i. i \<notin> set invalid) xs)
          (s\<lparr>update_calls := update_calls s @ [xs ! i]\<rparr>)
      else s\<lparr>update_calls := update_calls s @ [xs ! i]\<rparr>)"
  by (subst scan.simps) (simp add: Let_def)

lemma scan_first_stale:
  "i < length xs \<Longrightarrow> \<not> tabs_update env (xs ! i) \<Longrightarrow>
   scan env w xs i invalid s =
     scan env w xs (i + 1) (invalid @ [xs ! i]) (s\<lparr>update_calls := update_calls s @ [xs ! i]\<rparr>)"
  by (subst scan.simps) (simp add: Let_def)

lemma scan_end:
  "\<not> i < length xs \<Longrightarrow> scan env w xs i invalid s = (None, invalid, s)"
  by (subst scan.simps) simp

lemma scan_all_stale:
  "(\<And>k. i \<le> k \<Longrightarrow> k < length xs \<Longrightarrow> \<not> tabs_update env (xs ! k)) \<Longrightarrow>
   scan env w xs i invalid s =
     (None, invalid @ drop i xs, s\<lparr>update_calls := update_calls s @ drop i xs\<rparr>)"
proof (induction env w xs i invalid s rule: scan.induct)
  case (1 env w xs i invalid s)
  show ?case
  proof (cases "i < length xs")
    case True
    let ?s1 = "s\<lparr>update_calls := update_calls s @ [xs ! i]\<rparr>"
    have stale: "\<not> tabs_update env (xs ! i)"
      using "1.prems" [of i] True by simp
    have "scan env w xs (i + 1) (invalid @ [xs ! i]) ?s1 =
          (None, (invalid @ [xs ! i]) @ drop (i + 1) xs,
           ?s1\<lparr>update_calls := update_calls ?s1 @ drop (i + 1) xs\<rparr>)"
      using True stale "1.prems" by (intro "1.IH") simp_all
    then show ?thesis
      using True stale by (simp add: scan_first_stale Cons_nth_drop_Suc)
  next
    case False
    then show ?thesis by (simp add: scan_end)
  qed
qed

lemma filter_stale_distinct:
  "distinct (x # xs) \<Longrightarrow> filter (\<lambda>i. i \<notin> set xs) (x # xs) = [x]"
  by (simp add: filter_empty_conv)

text \<open>
  C5. Let \<open>w\<close> be the current window (its id passes \<^verbatim>\<open>if (!currentWindow.id)\<close>, so it is
  not 0) and let its history have fewer than 2 entries. Then \<^verbatim>\<open>switchToPreviousTab\<close>
  returns at the "not enough tabs" check and the state is untouched: no call of
  \<^verbatim>\<open>chrome.tabs.update\<close>, no write to the storage.
\<close>

theorem C5_switch_not_enough_history:
  assumes "windows_getCurrent env = Some w" "w \<noteq> 0"
    and "length (getRecentTabsForWindow w s) < 2"
  shows "switchToPreviousTab env s = (NotEnoughHistory, s)"
  using assms by (simp add: switchToPreviousTab_def)

text \<open>The history of window 1 is the single tab 5.\<close>

theorem C5_switch_not_enough_history_witness:
  "getRecentTabsForWindow 1
     \<lparr>storage = Some (Map.empty(1 \<mapsto> [5])), activeTabIndex = None, update_calls = []\<rparr> = [5] \<and>
   switchToPreviousTab
     \<lparr>windows_getCurrent = Some 1, tabs_get = (\<lambda>i. None), tabs_query = (\<lambda>i. None),
      tabs_update = (\<lambda>i. True)\<rparr>
     \<lparr>storage = Some (Map.empty(1 \<mapsto> [5])), activeTabIndex = None, update_calls = []\<rparr> =
   (NotEnoughHistory,
    \<lparr>storage = Some (Map.empty(1 \<mapsto> [5])), activeTabIndex = None, update_calls = []\<rparr>)"
proof -
  let ?s = "\<lparr>storage = Some (Map.empty(1 \<mapsto> [5])), activeTabIndex = None, update_calls = []\<rparr>"
  let ?env = "\<lparr>windows_getCurrent = Some 1, tabs_get = (\<lambda>i. None), tabs_query = (\<lambda>i. None),
               tabs_update = (\<lambda>i. True)\<rparr>"
  have hist: "getRecentTabsForWindow 1 ?s = [5]"
    by (simp add: getRecentTabsForWindow_def getTabsByWindow_def)
  have "switchToPreviousTab ?env ?s = (NotEnoughHistory, ?s)"
    by (rule C5_switch_not_enough_history [of ?env 1]) (simp_all add: hist)
  with hist show ?thesis by simp
qed

text \<open>
  C2. Let \<open>w\<close> be the current window with the history 5, 3, 9, where
  \<^verbatim>\<open>chrome.tabs.update\<close> rejects for tab 3 and resolves for tab 9. Then
  \<^verbatim>\<open>switchToPreviousTab\<close> tries tab 3, goes on to tab 9 and returns after activating
  it; it writes the table back with the history of \<open>w\<close> set to 5, 9.
\<close>

theorem C2_switch_skips_stale_and_cleans_up:
  assumes "windows_getCurrent env = Some w" "w \<noteq> 0"
    and "getRecentTabsForWindow w s = [5, 3, 9]"
    and "\<not> tabs_update env 3" "tabs_update env 9"
  shows "fst (switchToPreviousTab env s) = Switched 9 \<and>
         update_calls (snd (switchToPreviousTab env s)) = update_calls s @ [3, 9] \<and>
         storage (snd (switchToPreviousTab env s)) = Some ((getTabsByWindow s)(w \<mapsto> [5, 9])) \<and>
         getRecentTabsForWindow w (snd (switchToPreviousTab env s)) = [5, 9]"
proof -
  have "scan env w [5, 3, 9] 1 [] s =
          scan env w [5, 3, 9] 2 [3] (s\<lparr>update_calls := update_calls s @ [3]\<rparr>)"
    using assms(4) scan_first_stale [of 1 "[5, 3, 9]" env w "[]" s]
    by (simp add: numeral_2_eq_2)
  also have "\<dots> = (Some 9, [3],
       setRecentTabsForWindow w [5, 9] (s\<lparr>update_calls := update_calls s @ [3, 9]\<rparr>))"
    using assms(5) scan_first_ok [of 2 "[5, 3, 9]" env w "[3]"] by simp
  finally show ?thesis
    using assms(1,2,3) by (simp add: switchToPreviousTab_def)
qed

text \<open>Window 1 with the history 5, 3, 9 beside window 2; only the tabs 5 and 9 exist.\<close>

theorem C2_switch_skips_stale_and_cleans_up_witness:
  "fst (switchToPreviousTab
     \<lparr>windows_getCurrent = Some 1, tabs_get = (\<lambda>i. None), tabs_query = (\<lambda>i. None),
      tabs_update = (\<lambda>i. i = 5 \<or> i = 9)\<rparr>
     \<lparr>storage = Some (Map.empty(1 \<mapsto> [5, 3, 9], 2 \<mapsto> [4])), activeTabIndex = None,
      update_calls = []\<rparr>) = Switched 9 \<and>
   update_calls (snd (switchToPreviousTab
     \<lparr>windows_getCurrent = Some 1, tabs_get = (\<lambda>i. None), tabs_query = (\<lambda>i. None),
      tabs_update = (\<lambda>i. i = 5 \<or> i = 9)\<rparr>
     \<lparr>storage = Some (Map.empty(1 \<mapsto> [5, 3, 9], 2 \<mapsto> [4])), activeTabIndex = None,
      update_calls = []\<rparr>)) = [3, 9] \<and>
   getRecentTabsForWindow 1 (snd (switchToPreviousTab
     \<lparr>windows_getCurrent = Some 1, tabs_get = (\<lambda>i. None), tabs_query = (\<lambda>i. None),
      tabs_update = (\<lambda>i. i = 5 \<or> i = 9)\<rparr>
     \<lparr>storage = Some (Map.empty(1 \<mapsto> [5, 3, 9], 2 \<mapsto> [4])), activeTabIndex = None,
      update_calls = []\<rparr>)) = [5, 9]"
proof -
  let ?s = "\<lparr>storage = Some (Map.empty(1 \<mapsto> [5, 3, 9], 2 \<mapsto> [4])), activeTabIndex = None,
             update_calls = []\<rparr>"
  let ?env = "\<lparr>windows_getCurrent = Some 1, tabs_get = (\<lambda>i. None), tabs_query = (\<lambda>i. None),
               tabs_update = (\<lambda>i. i = 5 \<or> i = 9)\<rparr>"
  have hist: "getRecentTabsForWindow 1 ?s = [5, 3, 9]"
    by (simp add: getRecentTabsForWindow_def getTabsByWindow_def)
  show ?thesis
    using C2_switch_skips_stale_and_cleans_up [of ?env 1 ?s, OF _ _ hist] by simp
qed

text \<open>
  C3. Let \<open>w\<close> be the current window, with a history \<open>hist\<close> of at least 2 entries, and
  let \<^verbatim>\<open>chrome.tabs.update\<close> reject for every candidate, the entries of \<open>hist\<close> from
  position 1 on. Then \<^verbatim>\<open>switchToPreviousTab\<close> tries each candidate in order, reaches
  the end of the loop, writes the table back with every candidate id filtered out of
  the history of \<open>w\<close>, and returns at the "cleaned up stale tab IDs" exit. When \<open>hist\<close>
  has no duplicates, the history left is its first entry alone (5, 3 becomes 5).
\<close>

theorem C3_switch_all_candidates_stale:
  assumes "windows_getCurrent env = Some w" "w \<noteq> 0"
    and "getRecentTabsForWindow w s = hist" "2 \<le> length hist"
    and "\<forall>c \<in> set (tl hist). \<not> tabs_update env c"
  shows "fst (switchToPreviousTab env s) = AllStale \<and>
         update_calls (snd (switchToPreviousTab env s)) = update_calls s @ tl hist \<and>
         storage (snd (switchToPreviousTab env s)) =
           Some ((getTabsByWindow s)(w \<mapsto> filter (\<lambda>i. i \<notin> set (tl hist)) hist)) \<and>
         (distinct hist \<longrightarrow>
            getRecentTabsForWindow w (snd (switchToPreviousTab env s)) = [hd hist])"
proof -
  obtain x xs where hist: "hist = x # xs" and xs: "xs \<noteq> []"
    using assms(4) by (cases hist; cases "tl hist") auto
  have stale: "\<And>k. 1 \<le> k \<Longrightarrow> k < length hist \<Longrightarrow> \<not> tabs_update env (hist ! k)"
    using assms(5) hist by (auto simp: nth_Cons')
  have loop: "scan env w hist 1 [] s =
        (None, [] @ drop 1 hist, s\<lparr>update_calls := update_calls s @ drop 1 hist\<rparr>)"
    by (rule scan_all_stale) (rule stale)
  have run: "switchToPreviousTab env s =
        (AllStale, setRecentTabsForWindow w (filter (\<lambda>i. i \<notin> set xs) hist)
                     (s\<lparr>update_calls := update_calls s @ xs\<rparr>))"
    using assms(1,2,3) loop hist xs by (simp add: switchToPreviousTab_def)
  show ?thesis
    unfolding run using hist filter_stale_distinct [of x xs] by simp
qed

text \<open>Window 1 with the history 5, 3; tab 3 is gone.\<close>

theorem C3_switch_all_candidates_stale_witness:
  "fst (switchToPreviousTab
     \<lparr>windows_getCurrent = Some 1, tabs_get = (\<lambda>i. None), tabs_query = (\<lambda>i. None),
      tabs_update = (\<lambda>i. i = 5)\<rparr>
     \<lparr>storage = Some (Map.empty(1 \<mapsto> [5, 3])), activeTabIndex = None, update_calls = []\<rparr>)
     = AllStale \<and>
   update_calls (snd (switchToPreviousTab
     \<lparr>windows_getCurrent = Some 1, tabs_get = (\<lambda>i. None), tabs_query = (\<lambda>i. None),
      tabs_update = (\<lambda>i. i = 5)\<rparr>
     \<lparr>storage = Some (Map.empty(1 \<mapsto> [5, 3])), activeTabIndex = None, update_calls = []\<rparr>))
     = [3] \<and>
   getRecentTabsForWindow 1 (snd (switchToPreviousTab
     \<lparr>windows_getCurrent = Some 1, tabs_get = (\<lambda>i. None), tabs_query = (\<lambda>i. None),
      tabs_update = (\<lambda>i. i = 5)\<rparr>
     \<lparr>storage = Some (Map.empty(1 \<mapsto> [5, 3])), activeTabIndex = None, update_calls = []\<rparr>))
     = [5]"
proof -
  let ?s = "\<lparr>storage = Some (Map.empty(1 \<mapsto> [5, 3])), activeTabIndex = None,
             update_calls = []\<rparr>"
  let ?env = "\<lparr>windows_getCurrent = Some 1, tabs_get = (\<lambda>i. None), tabs_query = (\<lambda>i. None),
               tabs_update = (\<lambda>i. i = 5)\<rparr>"
  have hist: "getRecentTabsForWindow 1 ?s = [5, 3]"
    by (simp add: getRecentTabsForWindow_def getTabsByWindow_def)
  show ?thesis
    using C3_switch_all_candidates_stale [of ?env 1 ?s "[5, 3]", OF _ _ hist] by simp
qed

text \<open>
  C10. Let \<open>w\<close> be the current window, with a history \<open>hist\<close> of at least 2 entries, and
  let \<^verbatim>\<open>chrome.tabs.update\<close> resolve for \<open>hist ! 1\<close>. Then the two revisions of
  \<^verbatim>\<open>switchToPreviousTab\<close> do the same: each calls \<^verbatim>\<open>chrome.tabs.update\<close> once, for
  \<open>hist ! 1\<close>, returns after it, and leaves the storage as it was.
\<close>

theorem C10_switch_revisions_agree_on_first_success:
  assumes "windows_getCurrent env = Some w" "w \<noteq> 0"
    and "getRecentTabsForWindow w s = hist" "2 \<le> length hist"
    and "tabs_update env (hist ! 1)"
  shows "switchToPreviousTab_rev1 env s = switchToPreviousTab env s \<and>
         fst (switchToPreviousTab env s) = Switched (hist ! 1) \<and>
         update_calls (snd (switchToPreviousTab env s)) = update_calls s @ [hist ! 1] \<and>
         storage (snd (switchToPreviousTab env s)) = storage s"
proof -
  have "scan env w hist 1 [] s =
          (Some (hist ! 1), [], s\<lparr>update_calls := update_calls s @ [hist ! 1]\<rparr>)"
    using assms(4,5) by (simp add: scan_first_ok)
  then show ?thesis
    using assms by (simp add: switchToPreviousTab_def switchToPreviousTab_rev1_def Let_def)
qed

text \<open>Window 1 with the history 5, 3, 9; every tab exists.\<close>

theorem C10_switch_revisions_agree_on_first_success_witness:
  "switchToPreviousTab_rev1
     \<lparr>windows_getCurrent = Some 1, tabs_get = (\<lambda>i. None), tabs_query = (\<lambda>i. None),
      tabs_update = (\<lambda>i. True)\<rparr>
     \<lparr>storage = Some (Map.empty(1 \<mapsto> [5, 3, 9])), activeTabIndex = None, update_calls = []\<rparr> =
   switchToPreviousTab
     \<lparr>windows_getCurrent = Some 1, tabs_get = (\<lambda>i. None), tabs_query = (\<lambda>i. None),
      tabs_update = (\<lambda>i. True)\<rparr>
     \<lparr>storage = Some (Map.empty(1 \<mapsto> [5, 3, 9])), activeTabIndex = None, update_calls = []\<rparr> \<and>
   switchToPreviousTab
     \<lparr>windows_getCurrent = Some 1, tabs_get = (\<lambda>i. None), tabs_query = (\<lambda>i. None),
      tabs_update = (\<lambda>i. True)\<rparr>
     \<lparr>storage = Some (Map.empty(1 \<mapsto> [5, 3, 9])), activeTabIndex = None, update_calls = []\<rparr> =
   (Switched 3,
    \<lparr>storage = Some (Map.empty(1 \<mapsto> [5, 3, 9])), activeTabIndex = None, update_calls = [3]\<rparr>)"
proof -
  let ?s = "\<lparr>storage = Some (Map.empty(1 \<mapsto> [5, 3, 9])), activeTabIndex = None,
             update_calls = []\<rparr>"
  let ?env = "\<lparr>windows_getCurrent = Some 1, tabs_get = (\<lambda>i. None), tabs_query = (\<lambda>i. None),
               tabs_update = (\<lambda>i. True)\<rparr>"
  have hist: "getRecentTabsForWindow 1 ?s = [5, 3, 9]"
    by (simp add: getRecentTabsForWindow_def getTabsByWindow_def)
  have run: "switchToPreviousTab ?env ?s = (Switched 3, ?s\<lparr>update_calls := [3]\<rparr>)"
    by (simp add: switchToPreviousTab_def hist scan_first_ok)
  show ?thesis
    using C10_switch_revisions_agree_on_first_success [of ?env 1 ?s "[5, 3, 9]", OF _ _ hist] run
    by simp
qed

end
